theory Spec2Isabelle
  imports Complex_Main
begin

section \<open>Conventions of the embedding\<close>

text \<open>
  The TypeScript sources are embedded function by function. A mutable object is a record
  that each method takes and returns; a rejected promise or a \<^verbatim>\<open>throw\<close> is the left
  summand of the result. \<^verbatim>\<open>Date.now()\<close> and \<^verbatim>\<open>new Date()\<close> read the wall clock: every
  reading a method takes is an argument of its model, so a theorem holds for every clock,
  monotone or not. Timestamps and TTLs are integers (milliseconds);
  \<^verbatim>\<open>new Date().toISOString()\<close> is kept as the reading it prints. Calls to the logger
  are observational and are left out. Definitions come first, module by module; the
  properties follow.
\<close>

type_synonym millis = int

text \<open>Decimal rendering of an integer, as a template literal prints it.\<close>

fun decimal :: "nat \<Rightarrow> string" where
  "decimal n =
     (if n < 10 then [''0123456789'' ! n]
      else decimal (n div 10) @ [''0123456789'' ! (n mod 10)])"

declare decimal.simps [simp del]

definition show_int :: "int \<Rightarrow> string" where
  "show_int i = (if i < 0 then CHR ''-'' # decimal (nat (- i)) else decimal (nat i))"

section \<open>Errors (common/exceptions/index.ts)\<close>

text \<open>
  A thrown value. \<open>Error\<close> stands for every error class the core does not tell apart
  (it carries the message); \<open>SqsException\<close> keeps its message, operation, correlation id
  and the error it wraps.
\<close>

datatype error =
    Error string
  | CircuitBreakerOpenException string
  | SqsException string string string error

fun message :: "error \<Rightarrow> string" where
  "message (Error m) = m"
| "message (CircuitBreakerOpenException svc) = ''Circuit breaker is open for '' @ svc"
| "message (SqsException m operation correlationId originalError) = m"

section \<open>Idempotency store and manager (common/utils/idempotency.util.ts)\<close>

datatype IdempotencyStatus = NOT_FOUND | PROCESSING | COMPLETED | FAILED

record IdempotencyRecord =
  key :: string
  status :: IdempotencyStatus
  createdAt :: millis
  updatedAt :: millis
  result :: "string option"
  error :: "string option"

text \<open>An entry of the in-memory map: the record and the instant after which it is stale.\<close>

record store_entry =
  the_record :: IdempotencyRecord
  expiresAt :: millis

type_synonym store = "string \<rightharpoonup> store_entry"

text \<open>
  \<^verbatim>\<open>InMemoryIdempotencyStore.get\<close>: an entry whose \<open>expiresAt\<close> lies strictly before
  the clock reading is removed and reported as \<open>null\<close>.
\<close>

definition store_get :: "millis \<Rightarrow> string \<Rightarrow> store \<Rightarrow> IdempotencyRecord option \<times> store" where
  "store_get now k s =
     (case s k of
        None \<Rightarrow> (None, s)
      | Some entry \<Rightarrow>
          if now > expiresAt entry then (None, s(k := None))
          else (Some (the_record entry), s))"

definition store_set :: "millis \<Rightarrow> string \<Rightarrow> IdempotencyRecord \<Rightarrow> millis \<Rightarrow> store \<Rightarrow> store" where
  "store_set now k r ttlMs s = s(k \<mapsto> \<lparr>the_record = r, expiresAt = now + ttlMs\<rparr>)"

definition store_delete :: "string \<Rightarrow> store \<Rightarrow> store" where
  "store_delete k s = s(k := None)"

text \<open>
  The three clock readings of one write by the manager: the two \<^verbatim>\<open>new Date()\<close> of the
  record's date fields, then the \<^verbatim>\<open>Date.now()\<close> inside \<open>store.set\<close>.
\<close>

record stamp =
  at_created :: millis
  at_updated :: millis
  at_stored :: millis

text \<open>
  \<^verbatim>\<open>IdempotencyManager\<close> over the in-memory store; \<open>ttlMs\<close> is the constructor's
  argument. \<open>checkAndLock\<close> reads the clock in \<open>store.get\<close> (\<open>t_get\<close>) and, when no
  record is found, takes the readings of a write.
\<close>

definition checkAndLock ::
  "millis \<Rightarrow> millis \<Rightarrow> stamp \<Rightarrow> string \<Rightarrow> store \<Rightarrow> IdempotencyStatus \<times> store" where
  "checkAndLock ttlMs t_get w k s =
     (case store_get t_get k s of
        (Some existing, s') \<Rightarrow> (status existing, s')
      | (None, s') \<Rightarrow>
          (NOT_FOUND,
           store_set (at_stored w) k
             \<lparr>key = k, status = PROCESSING, createdAt = at_created w, updatedAt = at_updated w,
              result = None, error = None\<rparr> ttlMs s'))"

definition markCompleted :: "millis \<Rightarrow> stamp \<Rightarrow> string \<Rightarrow> string option \<Rightarrow> store \<Rightarrow> store" where
  "markCompleted ttlMs w k res s =
     store_set (at_stored w) k
       \<lparr>key = k, status = COMPLETED, createdAt = at_created w, updatedAt = at_updated w,
        result = res, error = None\<rparr> ttlMs s"

definition markFailed :: "millis \<Rightarrow> stamp \<Rightarrow> string \<Rightarrow> string \<Rightarrow> store \<Rightarrow> store" where
  "markFailed ttlMs w k msg s =
     store_set (at_stored w) k
       \<lparr>key = k, status = FAILED, createdAt = at_created w, updatedAt = at_updated w,
        result = None, error = Some msg\<rparr> ttlMs s"

definition release :: "string \<Rightarrow> store \<Rightarrow> store" where
  "release k s = store_delete k s"

text \<open>
  \<open>generateKey\<close> is a template literal. Its parameters are strings by their type, but the
  consumer passes fields of an unvalidated JSON value: a missing field arrives as
  \<open>undefined\<close> (\<open>None\<close>), which a template literal prints as the word "undefined".
\<close>

definition template :: "string option \<Rightarrow> string" where
  "template x = (case x of None \<Rightarrow> ''undefined'' | Some v \<Rightarrow> v)"

definition generateKey :: "string option \<Rightarrow> string option \<Rightarrow> string" where
  "generateKey productId eventId =
     ''product:'' @ template productId @ '':event:'' @ template eventId"

text \<open>What \<open>get\<close> reports for a key at a given instant.\<close>

definition visible :: "millis \<Rightarrow> string \<Rightarrow> store \<Rightarrow> IdempotencyRecord option" where
  "visible now k s = fst (store_get now k s)"

section \<open>Retry with backoff (common/utils/retry.util.ts)\<close>

text \<open>
  The delays are JavaScript numbers, that is doubles. The product, the sum and
  \<^verbatim>\<open>Math.pow\<close> of the run-time system round their results, and \<^verbatim>\<open>Math.pow\<close> is only
  approximated: none of them is code of this repository, so the calculator takes them as
  a parameter. A number is the real it denotes; the operations are meant on the finite
  doubles, and every property below that speaks of an exact value carries the hypothesis
  that the operations it goes through were exact. \<^verbatim>\<open>Math.min\<close> is exact, and so is
  \<^verbatim>\<open>Math.round\<close>, which returns \<open>\<lfloor>x + 1/2\<rfloor>\<close>, that is \<^const>\<open>round\<close>. \<open>rnd\<close> is the
  value \<^verbatim>\<open>Math.random()\<close> returns, in \<open>[0, 1)\<close>. The number of attempts is an integer.
\<close>

record arithmetic =
  fmul :: "real \<Rightarrow> real \<Rightarrow> real"
  fadd :: "real \<Rightarrow> real \<Rightarrow> real"
  fpow :: "real \<Rightarrow> nat \<Rightarrow> real"

record RetryConfig =
  maxAttempts :: int
  baseDelayMs :: real
  maxDelayMs :: real
  exponentialBase :: real
  jitter :: bool

definition RETRY_DEFAULT_CONFIG :: RetryConfig where
  "RETRY_DEFAULT_CONFIG =
     \<lparr>maxAttempts = 3, baseDelayMs = 1000, maxDelayMs = 30000, exponentialBase = 2,
      jitter = True\<rparr>"

definition calculateDelay :: "arithmetic \<Rightarrow> nat \<Rightarrow> RetryConfig \<Rightarrow> real \<Rightarrow> int" where
  "calculateDelay ar attempt config rnd =
     (let delay = fmul ar (baseDelayMs config) (fpow ar (exponentialBase config) attempt);
          delay = min delay (maxDelayMs config);
          delay = (if jitter config then fmul ar delay (fadd ar 0.5 rnd) else delay)
      in round delay)"

text \<open>\<^verbatim>\<open>Partial<RetryConfig>\<close> and the spread \<^verbatim>\<open>{ ...DEFAULT_CONFIG, ...config }\<close>.\<close>

record PartialRetryConfig =
  maxAttempts_opt :: "int option"
  baseDelayMs_opt :: "real option"
  maxDelayMs_opt :: "real option"
  exponentialBase_opt :: "real option"
  jitter_opt :: "bool option"

definition fullConfig :: "PartialRetryConfig \<Rightarrow> RetryConfig" where
  "fullConfig config =
     \<lparr>maxAttempts = (case maxAttempts_opt config of None \<Rightarrow> maxAttempts RETRY_DEFAULT_CONFIG | Some x \<Rightarrow> x),
      baseDelayMs = (case baseDelayMs_opt config of None \<Rightarrow> baseDelayMs RETRY_DEFAULT_CONFIG | Some x \<Rightarrow> x),
      maxDelayMs = (case maxDelayMs_opt config of None \<Rightarrow> maxDelayMs RETRY_DEFAULT_CONFIG | Some x \<Rightarrow> x),
      exponentialBase =
        (case exponentialBase_opt config of None \<Rightarrow> exponentialBase RETRY_DEFAULT_CONFIG | Some x \<Rightarrow> x),
      jitter = (case jitter_opt config of None \<Rightarrow> jitter RETRY_DEFAULT_CONFIG | Some x \<Rightarrow> x)\<rparr>"

text \<open>
  An operation is a nullary function with effects: it takes the state of the world it acts
  on and returns how its promise settles together with the new world. What the executor
  itself does is returned as a list of events, oldest first.
\<close>

type_synonym ('w, 'a) operation = "'w \<Rightarrow> (error + 'a) \<times> 'w"

datatype retry_event = Invoked | Slept int

text \<open>
  The \<^verbatim>\<open>for\<close> loop of \<open>retryWithBackoff\<close> from a given \<open>attempt\<close>. \<open>lastError\<close> is
  \<open>undefined\<close> (\<open>None\<close>) until an attempt has failed; the final \<^verbatim>\<open>throw lastError\<close>
  throws whatever it holds. \<open>rnd i\<close> is the random number drawn for the delay after
  attempt \<open>i\<close>.
\<close>

function retry_loop ::
  "arithmetic \<Rightarrow> RetryConfig \<Rightarrow> ('w, 'a) operation \<Rightarrow> (nat \<Rightarrow> real) \<Rightarrow> nat \<Rightarrow> error option \<Rightarrow> 'w
     \<Rightarrow> (error option + 'a) \<times> 'w \<times> retry_event list" where
  "retry_loop ar config operation rnd attempt lastError w =
     (if int attempt < maxAttempts config then
        (case operation w of
           (Inr v, w') \<Rightarrow> (Inr v, w', [Invoked])
         | (Inl e, w') \<Rightarrow>
             (if int attempt < maxAttempts config - 1 then
                (case retry_loop ar config operation rnd (Suc attempt) (Some e) w' of
                   (r, w'', evs) \<Rightarrow>
                     (r, w'',
                      Invoked # Slept (calculateDelay ar attempt config (rnd attempt)) # evs))
              else
                (case retry_loop ar config operation rnd (Suc attempt) (Some e) w' of
                   (r, w'', evs) \<Rightarrow> (r, w'', Invoked # evs))))
      else (Inl lastError, w, []))"
  by pat_completeness auto
termination
  by (relation
      "measure (\<lambda>(ar, c, operation, rnd, attempt, lastError, w). nat (maxAttempts c - int attempt))")
    auto

declare retry_loop.simps [simp del]

definition retryWithBackoff ::
  "arithmetic \<Rightarrow> ('w, 'a) operation \<Rightarrow> PartialRetryConfig \<Rightarrow> (nat \<Rightarrow> real) \<Rightarrow> 'w
     \<Rightarrow> (error option + 'a) \<times> 'w \<times> retry_event list" where
  "retryWithBackoff ar operation config rnd w =
     retry_loop ar (fullConfig config) operation rnd 0 None w"

text \<open>
  An operation that counts its invocations and settles the \<open>n\<close>-th one (from 0) as a
  given script says: the world is the number of invocations so far.
\<close>

definition scripted :: "(nat \<Rightarrow> error + 'a) \<Rightarrow> (nat, 'a) operation" where
  "scripted outcomes n = (outcomes n, Suc n)"

text \<open>
  The events of \<open>j + 1\<close> attempts starting at attempt \<open>a\<close>: each of the first \<open>j\<close> is
  followed by its backoff sleep, the last one by nothing.
\<close>

definition schedule ::
  "arithmetic \<Rightarrow> RetryConfig \<Rightarrow> (nat \<Rightarrow> real) \<Rightarrow> nat \<Rightarrow> nat \<Rightarrow> retry_event list" where
  "schedule ar c rnd a j =
     concat (map (\<lambda>i. [Invoked, Slept (calculateDelay ar i c (rnd i))]) [a..<a + j]) @ [Invoked]"

section \<open>Circuit breaker (common/utils/circuit-breaker.util.ts)\<close>

datatype CircuitState = CLOSED | OPEN | HALF_OPEN

record CircuitBreakerConfig =
  failureThreshold :: int
  successThreshold :: int
  timeout :: millis
  resetTimeout :: millis

definition BREAKER_DEFAULT_CONFIG :: CircuitBreakerConfig where
  "BREAKER_DEFAULT_CONFIG =
     \<lparr>failureThreshold = 5, successThreshold = 2, timeout = 30000, resetTimeout = 60000\<rparr>"

text \<open>
  The counters only ever start at 0 and go up by one, so they are naturals; the thresholds
  are whatever numbers the configuration holds.
\<close>

record CircuitBreaker =
  serviceName :: string
  config :: CircuitBreakerConfig
  state :: CircuitState
  failureCount :: nat
  successCount :: nat
  lastFailureTime :: "millis option"

text \<open>The constructor, given the configuration after the defaults are merged in.\<close>

definition new_CircuitBreaker :: "string \<Rightarrow> CircuitBreakerConfig \<Rightarrow> CircuitBreaker" where
  "new_CircuitBreaker name c =
     \<lparr>serviceName = name, config = c, state = CLOSED, failureCount = 0, successCount = 0,
      lastFailureTime = None\<rparr>"

text \<open>
  \<^verbatim>\<open>if (!this.lastFailureTime) return true;\<close> The negation is JavaScript's: it holds
  for \<open>null\<close> and also for the number 0.
\<close>

definition shouldAttemptReset :: "millis \<Rightarrow> CircuitBreaker \<Rightarrow> bool" where
  "shouldAttemptReset now b =
     (case lastFailureTime b of
        None \<Rightarrow> True
      | Some t \<Rightarrow> if t = 0 then True else now - t \<ge> resetTimeout (config b))"

definition transitionTo :: "CircuitState \<Rightarrow> CircuitBreaker \<Rightarrow> CircuitBreaker" where
  "transitionTo newState b =
     (let b = b\<lparr>state := newState\<rparr>
      in if newState = CLOSED then b\<lparr>failureCount := 0, successCount := 0\<rparr>
         else if newState = HALF_OPEN then b\<lparr>successCount := 0\<rparr>
         else b)"

text \<open>The getter \<open>isOpen\<close>: it answers and may move the breaker to HALF_OPEN.\<close>

definition isOpen :: "millis \<Rightarrow> CircuitBreaker \<Rightarrow> bool \<times> CircuitBreaker" where
  "isOpen now b =
     (if state b = OPEN then
        (if shouldAttemptReset now b then (False, transitionTo HALF_OPEN b) else (True, b))
      else (False, b))"

definition onSuccess :: "CircuitBreaker \<Rightarrow> CircuitBreaker" where
  "onSuccess b =
     (let b = b\<lparr>failureCount := 0\<rparr>
      in if state b = HALF_OPEN then
           (let b = b\<lparr>successCount := Suc (successCount b)\<rparr>
            in if int (successCount b) \<ge> successThreshold (config b) then transitionTo CLOSED b
               else b)
         else b)"

definition onFailure :: "millis \<Rightarrow> error \<Rightarrow> CircuitBreaker \<Rightarrow> CircuitBreaker" where
  "onFailure now e b =
     (let b = b\<lparr>failureCount := Suc (failureCount b), lastFailureTime := Some now,
                successCount := 0\<rparr>
      in if state b = HALF_OPEN then transitionTo OPEN b
         else if int (failureCount b) \<ge> failureThreshold (config b) then transitionTo OPEN b
         else b)"

text \<open>
  How the promise of an operation run under the breaker settles: it resolves, it rejects,
  or it is still pending when the timer of \<open>withTimeout\<close> fires.
\<close>

datatype 'a settlement = Resolved 'a | Rejected error | Pending

type_synonym ('w, 'a) async_operation = "'w \<Rightarrow> 'a settlement \<times> 'w"

definition withTimeout ::
  "CircuitBreakerConfig \<Rightarrow> ('w, 'a) async_operation \<Rightarrow> 'w \<Rightarrow> (error + 'a) \<times> 'w" where
  "withTimeout c operation w =
     (case operation w of
        (Resolved v, w') \<Rightarrow> (Inr v, w')
      | (Rejected e, w') \<Rightarrow> (Inl e, w')
      | (Pending, w') \<Rightarrow>
          (Inl (Error (''Operation timed out after '' @ show_int (timeout c) @ ''ms'')), w'))"

text \<open>
  \<open>execute\<close>. \<open>t_call\<close> is the clock when \<open>isOpen\<close> is evaluated, \<open>t_settled\<close> the clock
  when a failure is recorded. The world \<open>w\<close> is what the operation acts on: it comes back
  unchanged exactly when the operation was not invoked.
\<close>

definition execute ::
  "millis \<Rightarrow> millis \<Rightarrow> ('w, 'a) async_operation \<Rightarrow> CircuitBreaker \<Rightarrow> 'w
     \<Rightarrow> (error + 'a) \<times> CircuitBreaker \<times> 'w" where
  "execute t_call t_settled operation b w =
     (case isOpen t_call b of
        (True, b') \<Rightarrow> (Inl (CircuitBreakerOpenException (serviceName b')), b', w)
      | (False, b') \<Rightarrow>
          (case withTimeout (config b') operation w of
             (Inr v, w') \<Rightarrow> (Inr v, onSuccess b', w')
           | (Inl e, w') \<Rightarrow> (Inl e, onFailure t_settled e b', w')))"

definition reset :: "CircuitBreaker \<Rightarrow> CircuitBreaker" where
  "reset b = (transitionTo CLOSED b)\<lparr>lastFailureTime := None\<rparr>"

subsection \<open>Runs of the breaker\<close>

text \<open>
  One call of \<open>execute\<close> as the breaker sees it: the two clock readings and how the
  operation settles. A run is a sequence of calls made one after the other on a breaker.
\<close>

record call =
  at_call :: millis
  at_settled :: millis
  settlement :: "unit settlement"


definition call_step :: "CircuitBreaker \<Rightarrow> call \<Rightarrow> CircuitBreaker" where
  "call_step b x = fst (snd (execute (at_call x) (at_settled x) (\<lambda>w. (settlement x, w)) b ()))"

definition run :: "call list \<Rightarrow> CircuitBreaker \<Rightarrow> CircuitBreaker" where
  "run xs b = foldl call_step b xs"

subsection \<open>The state machine of the specification\<close>






section \<open>Queue consumer (sqs/sqs-consumer.service.ts, common/services/idempotency.service.ts)\<close>

text \<open>
  The fields of the canonical message that the consumer reads. The payload is cast, not
  validated, so the event id and the product id may be missing as well as \<open>detail\<close> and
  \<open>detail.product\<close>. The product's name and the event's metadata, which the consumer
  reads for its log lines and for the emitted event, are taken as present.
\<close>

record CanonicalProduct =
  product_id :: "string option"
  sku :: string

record ProductIngestedEvent =
  eventId :: "string option"
  correlationId :: "string option"
  product :: "CanonicalProduct option"
  batchId :: string

record SqsMessageBody =
  detail :: "ProductIngestedEvent option"

text \<open>
  What \<^verbatim>\<open>JSON.parse(message.Body)\<close> does: it throws a syntax error, or returns
  \<open>null\<close> (on which reading \<open>.detail\<close> throws), or returns a value whose \<open>detail\<close>
  and \<open>detail.product\<close> may be missing.
\<close>

datatype json_parse_result = SyntaxError string | JsonNull | JsonValue SqsMessageBody

record Message =
  MessageId :: string
  ReceiptHandle :: string
  Body :: string

record ProcessingMetrics =
  processed :: nat
  skipped :: nat
  failed :: nat
  totalDurationMs :: int

text \<open>
  The calls the consumer makes to its collaborators, oldest first: a delete request to
  the queue, the downstream upsert, the event emitted after a successful upsert.
\<close>

datatype action =
    DeleteMessage string
  | UpsertProduct CanonicalProduct
  | Emit string CanonicalProduct string string "string option"

record consumer =
  metrics :: ProcessingMetrics
  idempotency :: store
  actions :: "action list"

text \<open>
  What surrounds one delivery: the JSON parser, how \<open>pimcoreService.upsertProduct\<close>
  (circuit breaker around retry around the HTTP call) and \<open>sqsService.deleteMessage\<close>
  settle, the TTL of the idempotency manager, and the clock readings of the manager's
  calls.
\<close>

record environment =
  JSON_parse :: "string \<Rightarrow> json_parse_result"
  upsertProduct :: "CanonicalProduct \<Rightarrow> error + string"
  deleteMessage :: "string \<Rightarrow> error option"
  idempotency_ttl :: millis
  lock_get :: millis
  lock_stamp :: stamp
  processedAt :: millis
  completed_stamp :: stamp
  failed_stamp :: stamp

subsection \<open>IdempotencyService\<close>

text \<open>
  The service builds the key and calls the manager. The manager is bound to the in-memory
  store, as \<open>onModuleInit\<close> binds it when Redis is not available.
\<close>

definition IdempotencyService_checkAndLock ::
  "environment \<Rightarrow> string option \<Rightarrow> string option \<Rightarrow> store \<Rightarrow> IdempotencyStatus \<times> store" where
  "IdempotencyService_checkAndLock env productId ev_id s =
     checkAndLock (idempotency_ttl env) (lock_get env) (lock_stamp env)
       (generateKey productId ev_id) s"

definition IdempotencyService_markCompleted ::
  "environment \<Rightarrow> string option \<Rightarrow> string option \<Rightarrow> string option \<Rightarrow> store \<Rightarrow> store" where
  "IdempotencyService_markCompleted env productId ev_id res s =
     markCompleted (idempotency_ttl env) (completed_stamp env) (generateKey productId ev_id) res s"

definition IdempotencyService_markFailed ::
  "environment \<Rightarrow> string option \<Rightarrow> string option \<Rightarrow> string \<Rightarrow> store \<Rightarrow> store" where
  "IdempotencyService_markFailed env productId ev_id msg s =
     markFailed (idempotency_ttl env) (failed_stamp env) (generateKey productId ev_id) msg s"

definition isProcessed :: "IdempotencyStatus \<Rightarrow> bool" where
  "isProcessed st = (st = COMPLETED)"

definition isProcessing :: "IdempotencyStatus \<Rightarrow> bool" where
  "isProcessing st = (st = PROCESSING)"

subsection \<open>SqsConsumerService\<close>

definition sqs_deleteMessage :: "environment \<Rightarrow> string \<Rightarrow> consumer \<Rightarrow> error option \<times> consumer" where
  "sqs_deleteMessage env receiptHandle c =
     (deleteMessage env receiptHandle, c\<lparr>actions := actions c @ [DeleteMessage receiptHandle]\<rparr>)"

definition processProduct ::
  "environment \<Rightarrow> CanonicalProduct \<Rightarrow> ProductIngestedEvent \<Rightarrow> string option \<Rightarrow> consumer
     \<Rightarrow> (error + unit) \<times> consumer" where
  "processProduct env p ev corr c =
     (let c = c\<lparr>actions := actions c @ [UpsertProduct p]\<rparr>
      in case upsertProduct env p of
           Inl e \<Rightarrow> (Inl e, c)
         | Inr pimcoreId \<Rightarrow>
             (Inr (),
              c\<lparr>actions := actions c @ [Emit ''product.synced.pimcore'' p pimcoreId (batchId ev) corr]\<rparr>))"

text \<open>
  \<open>processMessageWithRetry\<close> in three pieces. \<open>admit\<close> is the body up to the inner
  \<^verbatim>\<open>try\<close> (lines 105 to 137): it returns, throws, or goes on to process. \<open>settle\<close> is the
  inner \<^verbatim>\<open>try\<close>/\<^verbatim>\<open>catch\<close> (lines 139 to 161). The function itself adds the outer
  \<^verbatim>\<open>catch\<close> (lines 162 to 173), which wraps whatever was thrown.
\<close>

datatype admission =
  Return | Throw error | Proceed CanonicalProduct ProductIngestedEvent "string option"

definition drop_invalid :: "environment \<Rightarrow> Message \<Rightarrow> consumer \<Rightarrow> admission \<times> consumer" where
  "drop_invalid env msg c =
     (case sqs_deleteMessage env (ReceiptHandle msg) c of
        (None, c) \<Rightarrow> (Return, c)
      | (Some e, c) \<Rightarrow> (Throw e, c))"

definition gate ::
  "environment \<Rightarrow> Message \<Rightarrow> CanonicalProduct \<Rightarrow> ProductIngestedEvent \<Rightarrow> consumer
     \<Rightarrow> admission \<times> consumer" where
  "gate env msg p ev c =
     (let corr = (case correlationId ev of
                    None \<Rightarrow> eventId ev
                  | Some x \<Rightarrow> if x = [] then eventId ev else Some x)
      in case IdempotencyService_checkAndLock env (product_id p) (eventId ev) (idempotency c) of
           (st, s) \<Rightarrow>
             (let c = c\<lparr>idempotency := s\<rparr>
              in if isProcessed st then
                   (let c = c\<lparr>metrics := (metrics c)\<lparr>skipped := Suc (skipped (metrics c))\<rparr>\<rparr>
                    in case sqs_deleteMessage env (ReceiptHandle msg) c of
                         (None, c) \<Rightarrow> (Return, c)
                       | (Some e, c) \<Rightarrow> (Throw e, c))
                 else if isProcessing st then (Return, c)
                 else (Proceed p ev corr, c)))"

definition admit :: "environment \<Rightarrow> Message \<Rightarrow> consumer \<Rightarrow> admission \<times> consumer" where
  "admit env msg c =
     (case JSON_parse env (Body msg) of
        SyntaxError m \<Rightarrow> (Throw (Error m), c)
      | JsonNull \<Rightarrow> (Throw (Error ''Cannot read properties of null (reading 'detail')''), c)
      | JsonValue body \<Rightarrow>
          (case detail body of
             None \<Rightarrow> drop_invalid env msg c
           | Some ev \<Rightarrow>
               (case product ev of
                  None \<Rightarrow> drop_invalid env msg c
                | Some p \<Rightarrow> gate env msg p ev c)))"

text \<open>The inner \<^verbatim>\<open>catch\<close>: mark the key FAILED, count the failure, rethrow.\<close>

definition record_failure ::
  "environment \<Rightarrow> CanonicalProduct \<Rightarrow> ProductIngestedEvent \<Rightarrow> error \<Rightarrow> consumer
     \<Rightarrow> (error + unit) \<times> consumer" where
  "record_failure env p ev e c =
     (Inl e,
      c\<lparr>idempotency :=
           IdempotencyService_markFailed env (product_id p) (eventId ev) (message e) (idempotency c),
        metrics := (metrics c)\<lparr>failed := Suc (failed (metrics c))\<rparr>\<rparr>)"

definition settle ::
  "environment \<Rightarrow> Message \<Rightarrow> CanonicalProduct \<Rightarrow> ProductIngestedEvent \<Rightarrow> string option \<Rightarrow> consumer
     \<Rightarrow> (error + unit) \<times> consumer" where
  "settle env msg p ev corr c =
     (case processProduct env p ev corr c of
        (Inl e, c) \<Rightarrow> record_failure env p ev e c
      | (Inr u, c) \<Rightarrow>
          (let c = c\<lparr>idempotency :=
                      IdempotencyService_markCompleted env (product_id p) (eventId ev)
                        (Some (''processedAt:'' @ show_int (processedAt env))) (idempotency c)\<rparr>
           in case sqs_deleteMessage env (ReceiptHandle msg) c of
                (Some e, c) \<Rightarrow> record_failure env p ev e c
              | (None, c) \<Rightarrow>
                  (Inr (), c\<lparr>metrics := (metrics c)\<lparr>processed := Suc (processed (metrics c))\<rparr>\<rparr>)))"

definition wrapped :: "Message \<Rightarrow> error \<Rightarrow> error" where
  "wrapped msg e =
     SqsException (''Message processing failed: '' @ message e) ''processMessage'' (MessageId msg) e"

definition processMessageWithRetry ::
  "environment \<Rightarrow> Message \<Rightarrow> consumer \<Rightarrow> (error + unit) \<times> consumer" where
  "processMessageWithRetry env msg c =
     (case admit env msg c of
        (Return, c) \<Rightarrow> (Inr (), c)
      | (Throw e, c) \<Rightarrow> (Inl (wrapped msg e), c)
      | (Proceed p ev corr, c) \<Rightarrow>
          (case settle env msg p ev corr c of
             (Inr u, c) \<Rightarrow> (Inr (), c)
           | (Inl e, c) \<Rightarrow> (Inl (wrapped msg e), c)))"

section \<open>Fixtures\<close>

text \<open>The configurations and inputs of the repository's unit tests, and one delivery.\<close>

text \<open>
  The arithmetic in which no operation rounds. The doubles compute as it does wherever
  the exact result of each operation is itself a double.
\<close>

definition unrounded :: arithmetic where
  "unrounded = \<lparr>fmul = (\<lambda>a b. a * b), fadd = (\<lambda>a b. a + b), fpow = (\<lambda>a n. a ^ n)\<rparr>"

definition test_policy :: PartialRetryConfig where
  "test_policy =
     \<lparr>maxAttempts_opt = Some 3, baseDelayMs_opt = Some 10, maxDelayMs_opt = None,
      exponentialBase_opt = None, jitter_opt = None\<rparr>"

definition test_breaker :: CircuitBreaker where
  "test_breaker =
     new_CircuitBreaker ''test-service''
       \<lparr>failureThreshold = 3, successThreshold = 2, timeout = 5000, resetTimeout = 100\<rparr>"

definition failing_at :: "millis \<Rightarrow> call" where
  "failing_at t = \<lparr>at_call = t, at_settled = t, settlement = Rejected (Error ''failure'')\<rparr>"


definition counted :: "(nat, string) async_operation" where
  "counted n = (Resolved ''should not run'', Suc n)"

definition shirt :: CanonicalProduct where
  "shirt = \<lparr>product_id = Some ''p1'', sku = ''SKU-1''\<rparr>"

definition ingested :: ProductIngestedEvent where
  "ingested =
     \<lparr>eventId = Some ''e1'', correlationId = None, product = Some shirt, batchId = ''b1''\<rparr>"


definition delivery :: Message where
  "delivery = \<lparr>MessageId = ''m1'', ReceiptHandle = ''rh1'', Body = ''{...}''\<rparr>"

definition at_time :: "millis \<Rightarrow> stamp" where
  "at_time t = \<lparr>at_created = t, at_updated = t, at_stored = t\<rparr>"

text \<open>
  An environment in which the payload parses to \<open>parsed\<close>, the downstream settles as
  \<open>up\<close>, the delete as \<open>del\<close>, and every clock reading is 5000 ms with a day of TTL.
\<close>

definition world :: "json_parse_result \<Rightarrow> error + string \<Rightarrow> error option \<Rightarrow> environment" where
  "world parsed up del =
     \<lparr>JSON_parse = (\<lambda>body. parsed), upsertProduct = (\<lambda>p. up), deleteMessage = (\<lambda>h. del),
      idempotency_ttl = 86400000, lock_get = 5000, lock_stamp = at_time 5000,
      processedAt = 5000, completed_stamp = at_time 5000, failed_stamp = at_time 5000\<rparr>"

definition idle :: consumer where
  "idle =
     \<lparr>metrics = \<lparr>processed = 0, skipped = 0, failed = 0, totalDurationMs = 0\<rparr>,
      idempotency = Map.empty, actions = []\<rparr>"

text \<open>A consumer whose store holds a record of the given status for the delivery's key.\<close>

definition holding :: "IdempotencyStatus \<Rightarrow> consumer" where
  "holding st =
     idle\<lparr>idempotency :=
       store_set 1000 (generateKey (Some ''p1'') (Some ''e1''))
         \<lparr>key = generateKey (Some ''p1'') (Some ''e1''), status = st, createdAt = 1000, updatedAt = 1000,
          result = None, error = None\<rparr> 86400000 Map.empty\<rparr>"

section \<open>Properties of the idempotency store and manager\<close>

subsection \<open>Time to live of a stored record\<close>

text \<open>
  C7. A record stored at instant \<open>t_set\<close> with TTL \<open>ttlMs\<close> is returned by \<open>get\<close> at
  every instant strictly before \<open>t_set + ttlMs\<close>, and \<open>get\<close> returns \<open>null\<close> at every
  instant after \<open>t_set + ttlMs\<close>, although the map still holds the entry when \<open>get\<close> is
  called (the entry is reclaimed by that very call, not before).
\<close>

theorem store_ttl:
  "(now < t_set + ttlMs \<longrightarrow>
      fst (store_get now k (store_set t_set k r ttlMs s)) = Some r) \<and>
   (t_set + ttlMs < now \<longrightarrow>
      store_set t_set k r ttlMs s k \<noteq> None \<and>
      fst (store_get now k (store_set t_set k r ttlMs s)) = None \<and>
      snd (store_get now k (store_set t_set k r ttlMs s)) k = None)"
  by (simp add: store_get_def store_set_def)

theorem store_ttl_witness:
  "(1999::int) < 1000 + 1000 \<and> (1000::int) + 1000 < 2001 \<and>
   fst (store_get 1999 ''k'' (store_set 1000 ''k''
      \<lparr>key = ''k'', status = COMPLETED, createdAt = 1000, updatedAt = 1000,
       result = None, error = None\<rparr> 1000 Map.empty))
     = Some \<lparr>key = ''k'', status = COMPLETED, createdAt = 1000, updatedAt = 1000,
       result = None, error = None\<rparr> \<and>
   fst (store_get 2001 ''k'' (store_set 1000 ''k''
      \<lparr>key = ''k'', status = COMPLETED, createdAt = 1000, updatedAt = 1000,
       result = None, error = None\<rparr> 1000 Map.empty)) = None"
  using store_ttl [of 1999 1000 1000 "''k''"
      "\<lparr>key = ''k'', status = COMPLETED, createdAt = 1000, updatedAt = 1000,
        result = None, error = None\<rparr>" Map.empty]
    store_ttl [of 2001 1000 1000 "''k''"
      "\<lparr>key = ''k'', status = COMPLETED, createdAt = 1000, updatedAt = 1000,
        result = None, error = None\<rparr>" Map.empty]
  by simp

subsection \<open>Check and lock\<close>

lemma checkAndLock_absent:
  "visible t_get k s = None \<Longrightarrow>
   checkAndLock ttlMs t_get w k s =
     (NOT_FOUND,
      s(k \<mapsto> \<lparr>the_record = \<lparr>key = k, status = PROCESSING, createdAt = at_created w,
                 updatedAt = at_updated w, result = None, error = None\<rparr>,
               expiresAt = at_stored w + ttlMs\<rparr>))"
  by (auto simp: visible_def checkAndLock_def store_get_def store_set_def
      split: option.splits if_splits)

lemma checkAndLock_present:
  "visible t_get k s = Some r \<Longrightarrow> checkAndLock ttlMs t_get w k s = (status r, s)"
  by (auto simp: visible_def checkAndLock_def store_get_def split: option.splits if_splits)

lemma visible_store_set:
  "now \<le> t_set + ttlMs \<Longrightarrow> visible now k (store_set t_set k r ttlMs s) = Some r"
  by (simp add: visible_def store_get_def store_set_def)

lemma visible_other_key:
  "k' \<noteq> k \<Longrightarrow> visible now k' (store_set t_set k r ttlMs s) = visible now k' s"
  by (simp add: visible_def store_get_def store_set_def split: option.splits)

text \<open>
  C1. When \<open>get\<close> finds no record for the key (none stored, or only a stale one),
  \<open>checkAndLock\<close> stores a PROCESSING record under the key and returns NOT_FOUND; when
  \<open>get\<close> finds an unexpired record it returns that record's status and leaves the store
  as it was. Hence two calls in a row, the second while the lock is unexpired, return
  NOT_FOUND and then PROCESSING, and a call that follows \<open>markCompleted\<close> within the TTL
  returns COMPLETED.
\<close>

theorem checkAndLock_contract:
  "(visible g1 k s = None \<longrightarrow>
      checkAndLock ttlMs g1 w1 k s =
        (NOT_FOUND,
         s(k \<mapsto> \<lparr>the_record = \<lparr>key = k, status = PROCESSING, createdAt = at_created w1,
                    updatedAt = at_updated w1, result = None, error = None\<rparr>,
                  expiresAt = at_stored w1 + ttlMs\<rparr>))) \<and>
   (\<forall>r. visible g1 k s = Some r \<longrightarrow> checkAndLock ttlMs g1 w1 k s = (status r, s)) \<and>
   (visible g1 k s = None \<and> g2 \<le> at_stored w1 + ttlMs \<longrightarrow>
      fst (checkAndLock ttlMs g1 w1 k s) = NOT_FOUND \<and>
      checkAndLock ttlMs g2 w2 k (snd (checkAndLock ttlMs g1 w1 k s)) =
        (PROCESSING, snd (checkAndLock ttlMs g1 w1 k s))) \<and>
   (g2 \<le> at_stored w1 + ttlMs \<longrightarrow>
      checkAndLock ttlMs g2 w2 k (markCompleted ttlMs w1 k res s) =
        (COMPLETED, markCompleted ttlMs w1 k res s))"
proof (intro conjI impI allI)
  assume "visible g1 k s = None"
  then show "checkAndLock ttlMs g1 w1 k s =
        (NOT_FOUND,
         s(k \<mapsto> \<lparr>the_record = \<lparr>key = k, status = PROCESSING, createdAt = at_created w1,
                    updatedAt = at_updated w1, result = None, error = None\<rparr>,
                  expiresAt = at_stored w1 + ttlMs\<rparr>))"
    by (rule checkAndLock_absent)
next
  fix r assume "visible g1 k s = Some r"
  then show "checkAndLock ttlMs g1 w1 k s = (status r, s)"
    by (rule checkAndLock_present)
next
  assume "visible g1 k s = None \<and> g2 \<le> at_stored w1 + ttlMs"
  then show "fst (checkAndLock ttlMs g1 w1 k s) = NOT_FOUND"
    by (simp add: checkAndLock_absent)
next
  assume a: "visible g1 k s = None \<and> g2 \<le> at_stored w1 + ttlMs"
  let ?lock = "\<lparr>key = k, status = PROCESSING, createdAt = at_created w1,
                updatedAt = at_updated w1, result = None, error = None\<rparr>"
  from a have first: "snd (checkAndLock ttlMs g1 w1 k s) = store_set (at_stored w1) k ?lock ttlMs s"
    by (simp add: checkAndLock_absent store_set_def)
  from a have "visible g2 k (store_set (at_stored w1) k ?lock ttlMs s) = Some ?lock"
    by (simp add: visible_store_set)
  then have "checkAndLock ttlMs g2 w2 k (store_set (at_stored w1) k ?lock ttlMs s) =
      (status ?lock, store_set (at_stored w1) k ?lock ttlMs s)"
    by (rule checkAndLock_present)
  with first show "checkAndLock ttlMs g2 w2 k (snd (checkAndLock ttlMs g1 w1 k s)) =
        (PROCESSING, snd (checkAndLock ttlMs g1 w1 k s))"
    by simp
next
  assume a: "g2 \<le> at_stored w1 + ttlMs"
  let ?done = "\<lparr>key = k, status = COMPLETED, createdAt = at_created w1,
                updatedAt = at_updated w1, result = res, error = None\<rparr>"
  from a have "visible g2 k (store_set (at_stored w1) k ?done ttlMs s) = Some ?done"
    by (simp add: visible_store_set)
  then have "checkAndLock ttlMs g2 w2 k (store_set (at_stored w1) k ?done ttlMs s) =
      (status ?done, store_set (at_stored w1) k ?done ttlMs s)"
    by (rule checkAndLock_present)
  then show "checkAndLock ttlMs g2 w2 k (markCompleted ttlMs w1 k res s) =
        (COMPLETED, markCompleted ttlMs w1 k res s)"
    by (simp add: markCompleted_def)
qed

text \<open>
  The unit test of the specification: an empty store, a day of TTL, a lock taken at
  1000 ms and a second delivery at 2000 ms; and a delivery at 2000 ms after a completion
  at 1000 ms.
\<close>

theorem checkAndLock_contract_witness:
  "visible 1000 ''product:p1:event:e1'' Map.empty = None \<and>
   (2000::int) \<le> at_stored (at_time 1000) + 86400000 \<and>
   fst (checkAndLock 86400000 1000 (at_time 1000) ''product:p1:event:e1'' Map.empty) = NOT_FOUND \<and>
   checkAndLock 86400000 2000 (at_time 2000) ''product:p1:event:e1''
         (snd (checkAndLock 86400000 1000 (at_time 1000) ''product:p1:event:e1'' Map.empty))
     = (PROCESSING,
        snd (checkAndLock 86400000 1000 (at_time 1000) ''product:p1:event:e1'' Map.empty)) \<and>
   checkAndLock 86400000 2000 (at_time 2000) ''product:p1:event:e1''
         (markCompleted 86400000 (at_time 1000) ''product:p1:event:e1'' None Map.empty)
     = (COMPLETED, markCompleted 86400000 (at_time 1000) ''product:p1:event:e1'' None Map.empty)"
proof -
  have v: "visible 1000 ''product:p1:event:e1'' Map.empty = None"
    by (simp add: visible_def store_get_def)
  have le: "(2000::int) \<le> at_stored (at_time 1000) + 86400000"
    by (simp add: at_time_def)
  note c = checkAndLock_contract [of 1000 "''product:p1:event:e1''" Map.empty 86400000
      "at_time 1000" 2000 "at_time 2000" None]
  from c v le show ?thesis by blast
qed

section \<open>Properties of the retry executor\<close>

subsection \<open>The backoff calculator\<close>

lemma calculateDelay_plain:
  "\<not> jitter c \<Longrightarrow>
   calculateDelay ar n c rnd =
     round (min (fmul ar (baseDelayMs c) (fpow ar (exponentialBase c) n)) (maxDelayMs c))"
  by (simp add: calculateDelay_def)

lemma calculateDelay_jittered:
  "jitter c \<Longrightarrow>
   calculateDelay ar n c rnd =
     round (fmul ar (min (fmul ar (baseDelayMs c) (fpow ar (exponentialBase c) n)) (maxDelayMs c))
              (fadd ar (1/2) rnd))"
  by (simp add: calculateDelay_def)

lemma round_of_integer: "x \<in> \<int> \<Longrightarrow> real_of_int (round x) = x"
  by (auto elim: Ints_cases)

text \<open>
  C6, as the code has it. The result is always rounded to the nearest integer (halves
  upwards). Without jitter it is the rounding of \<open>min (baseDelay * exponentialBase^n)
  maxDelay\<close>, the power and the product being those of the run-time system; where these
  two are exact it is the rounding of the exact value, and it is that value itself exactly
  when the value is an integer. With jitter the capped value is multiplied by
  \<open>0.5 + rnd\<close> and the product rounded; where the operations are exact this is the
  rounding of the capped value times \<open>1/2 + rnd\<close>, a factor in \<open>[1/2, 3/2)\<close>.
\<close>

theorem calculateDelay_rounds:
  "(\<not> jitter c \<longrightarrow>
      calculateDelay ar n c rnd =
        round (min (fmul ar (baseDelayMs c) (fpow ar (exponentialBase c) n)) (maxDelayMs c))) \<and>
   (\<not> jitter c \<and> fpow ar (exponentialBase c) n = exponentialBase c ^ n \<and>
    fmul ar (baseDelayMs c) (exponentialBase c ^ n) = baseDelayMs c * exponentialBase c ^ n \<longrightarrow>
      calculateDelay ar n c rnd =
        round (min (baseDelayMs c * exponentialBase c ^ n) (maxDelayMs c))) \<and>
   (\<not> jitter c \<and> fpow ar (exponentialBase c) n = exponentialBase c ^ n \<and>
    fmul ar (baseDelayMs c) (exponentialBase c ^ n) = baseDelayMs c * exponentialBase c ^ n \<and>
    min (baseDelayMs c * exponentialBase c ^ n) (maxDelayMs c) \<in> \<int> \<longrightarrow>
      real_of_int (calculateDelay ar n c rnd) =
        min (baseDelayMs c * exponentialBase c ^ n) (maxDelayMs c)) \<and>
   (jitter c \<longrightarrow>
      calculateDelay ar n c rnd =
        round (fmul ar
                 (min (fmul ar (baseDelayMs c) (fpow ar (exponentialBase c) n)) (maxDelayMs c))
                 (fadd ar (1/2) rnd))) \<and>
   (jitter c \<and> fpow ar (exponentialBase c) n = exponentialBase c ^ n \<and>
    fmul ar (baseDelayMs c) (exponentialBase c ^ n) = baseDelayMs c * exponentialBase c ^ n \<and>
    fadd ar (1/2) rnd = 1/2 + rnd \<and>
    fmul ar (min (baseDelayMs c * exponentialBase c ^ n) (maxDelayMs c)) (1/2 + rnd) =
      min (baseDelayMs c * exponentialBase c ^ n) (maxDelayMs c) * (1/2 + rnd) \<longrightarrow>
      calculateDelay ar n c rnd =
        round (min (baseDelayMs c * exponentialBase c ^ n) (maxDelayMs c) * (1/2 + rnd))) \<and>
   (0 \<le> rnd \<and> rnd < 1 \<longrightarrow> 1/2 \<le> 1/2 + rnd \<and> 1/2 + rnd < 3/2)"
  by (simp add: calculateDelay_def round_of_integer)

text \<open>
  The policy of the unit test at attempt 2 (1000 ms doubled twice), and the default
  policy with jitter at attempt 1 with the random draw 1/4 (2000 ms times 3/4): small
  integers and a dyadic fraction, on which no operation of the doubles rounds.
\<close>

theorem calculateDelay_rounds_witness:
  "\<not> jitter \<lparr>maxAttempts = 3, baseDelayMs = 1000, maxDelayMs = 30000, exponentialBase = 2,
        jitter = False\<rparr> \<and>
   fpow unrounded 2 2 = 2 ^ 2 \<and> fmul unrounded 1000 (2 ^ 2) = 1000 * 2 ^ 2 \<and>
   min (1000 * 2 ^ 2) (30000::real) \<in> \<int> \<and>
   calculateDelay unrounded 2 \<lparr>maxAttempts = 3, baseDelayMs = 1000, maxDelayMs = 30000,
        exponentialBase = 2, jitter = False\<rparr> 0 = 4000 \<and>
   jitter RETRY_DEFAULT_CONFIG \<and> fadd unrounded (1/2) (1/4) = 1/2 + 1/4 \<and>
   calculateDelay unrounded 1 RETRY_DEFAULT_CONFIG (1/4) = 1500"
proof -
  let ?c = "\<lparr>maxAttempts = 3, baseDelayMs = 1000, maxDelayMs = 30000, exponentialBase = 2,
        jitter = False\<rparr>"
  have h: "\<not> jitter ?c" "fpow unrounded 2 2 = 2 ^ 2"
    "fmul unrounded 1000 (2 ^ 2) = 1000 * 2 ^ 2" "min (1000 * 2 ^ 2) (30000::real) \<in> \<int>"
    by (simp_all add: unrounded_def)
  have g: "jitter RETRY_DEFAULT_CONFIG" "fpow unrounded 2 1 = 2 ^ 1"
    "fmul unrounded 1000 (2 ^ 1) = 1000 * 2 ^ 1" "fadd unrounded (1/2) (1/4) = 1/2 + 1/4"
    "fmul unrounded (min (1000 * 2 ^ 1) 30000) (1/2 + 1/4) = min (1000 * 2 ^ 1) 30000 * (1/2 + 1/4)"
    by (simp_all add: unrounded_def RETRY_DEFAULT_CONFIG_def)
  from calculateDelay_rounds [of ?c unrounded 2 0] h
  have a: "real_of_int (calculateDelay unrounded 2 ?c 0) = min (1000 * 2 ^ 2) 30000"
    by simp
  from calculateDelay_rounds [of RETRY_DEFAULT_CONFIG unrounded 1 "1/4"] g
  have b: "calculateDelay unrounded 1 RETRY_DEFAULT_CONFIG (1/4) =
      round (min (1000 * 2 ^ 1) 30000 * (1/2 + 1/4 :: real))"
    by (simp add: RETRY_DEFAULT_CONFIG_def)
  have "round (min (1000 * 2 ^ 1) 30000 * (1/2 + 1/4 :: real)) = 1500"
    by (simp add: round_def)
  with b have b': "calculateDelay unrounded 1 RETRY_DEFAULT_CONFIG (1/4) = 1500" by simp
  from a have a': "calculateDelay unrounded 2 ?c 0 = 4000"
    by simp
  from h g a' b' show ?thesis by simp
qed

text \<open>
  The claim's "exactly \<open>min (baseDelay * exponentialBase^n) maxDelay\<close>" fails for a policy
  whose capped value is not an integer. With a base delay of 125 ms and a multiplier of
  1.5, attempt 1 gives \<^verbatim>\<open>Math.pow(1.5, 1)\<close> = 1.5 and 125 * 1.5 = 187.5, both doubles, so no
  operation rounds; the calculator returns 188.
\<close>

theorem calculateDelay_not_exact:
  "calculateDelay unrounded 1 \<lparr>maxAttempts = 3, baseDelayMs = 125, maxDelayMs = 30000,
      exponentialBase = 3/2, jitter = False\<rparr> 0 = 188 \<and>
   real_of_int (calculateDelay unrounded 1 \<lparr>maxAttempts = 3, baseDelayMs = 125,
      maxDelayMs = 30000, exponentialBase = 3/2, jitter = False\<rparr> 0) \<noteq> min (125 * (3/2) ^ 1) 30000"
  by (simp add: calculateDelay_def unrounded_def round_def)

subsection \<open>The retry loop\<close>

lemma schedule_Suc:
  "schedule ar c rnd a (Suc j) =
     Invoked # Slept (calculateDelay ar a c (rnd a)) # schedule ar c rnd (Suc a) j"
proof -
  have "[a..<a + Suc j] = a # [Suc a..<Suc a + j]"
    using upt_conv_Cons [of a "a + Suc j"] by (simp del: upt_Suc)
  then show ?thesis by (simp add: schedule_def del: upt_Suc)
qed

lemma schedule_last: "last (schedule ar c rnd a j) = Invoked"
  by (simp add: schedule_def)

lemma schedule_invocations: "length (filter (\<lambda>e. e = Invoked) (schedule ar c rnd a j)) = Suc j"
  by (induction j arbitrary: a) (simp_all add: schedule_Suc, simp add: schedule_def)

lemma schedule_sleeps: "length (filter (\<lambda>e. e \<noteq> Invoked) (schedule ar c rnd a j)) = j"
  by (induction j arbitrary: a) (simp_all add: schedule_Suc, simp add: schedule_def)

lemma retry_loop_succeeds:
  "int a + int j < maxAttempts c \<Longrightarrow> (\<forall>i<j. isl (outcomes (n + i))) \<Longrightarrow> outcomes (n + j) = Inr v \<Longrightarrow>
   retry_loop ar c (scripted outcomes) rnd a le n = (Inr v, Suc (n + j), schedule ar c rnd a j)"
proof (induction j arbitrary: a n le)
  case 0
  then have "scripted outcomes n = (Inr v, Suc n)" by (simp add: scripted_def)
  with 0 show ?case
    by (simp add: retry_loop.simps [of ar c _ rnd a] schedule_def)
next
  case (Suc j)
  from Suc.prems(2) have "isl (outcomes n)" by force
  then obtain e where e: "outcomes n = Inl e" by (cases "outcomes n") auto
  have ih: "retry_loop ar c (scripted outcomes) rnd (Suc a) (Some e) (Suc n) =
      (Inr v, Suc (Suc n + j), schedule ar c rnd (Suc a) j)"
    using Suc.prems by (intro Suc.IH) auto
  from Suc.prems(1) have "int a < maxAttempts c - 1" by simp
  moreover from e have "scripted outcomes n = (Inl e, Suc n)" by (simp add: scripted_def)
  ultimately show ?case using ih
    by (simp add: retry_loop.simps [of ar c _ rnd a] schedule_Suc)
qed

lemma retry_loop_exhausts:
  "int a + int (Suc j) = maxAttempts c \<Longrightarrow> (\<forall>i\<le>j. outcomes (n + i) = Inl (errs i)) \<Longrightarrow>
   retry_loop ar c (scripted outcomes) rnd a le n =
     (Inl (Some (errs j)), Suc (n + j), schedule ar c rnd a j)"
proof (induction j arbitrary: a n le errs)
  case 0
  then have "int (Suc a) = maxAttempts c" by simp
  then have stop: "retry_loop ar c (scripted outcomes) rnd (Suc a) (Some (errs 0)) (Suc n) =
      (Inl (Some (errs 0)), Suc n, [])"
    by (simp add: retry_loop.simps [of ar c _ rnd "Suc a"])
  moreover from 0 have "scripted outcomes n = (Inl (errs 0), Suc n)" by (simp add: scripted_def)
  ultimately show ?case using 0
    by (simp add: retry_loop.simps [of ar c _ rnd a] schedule_def)
next
  case (Suc j)
  from Suc.prems(2) have e: "outcomes n = Inl (errs 0)" by force
  have ih: "retry_loop ar c (scripted outcomes) rnd (Suc a) (Some (errs 0)) (Suc n) =
      (Inl (Some ((\<lambda>i. errs (Suc i)) j)), Suc (Suc n + j), schedule ar c rnd (Suc a) j)"
    using Suc.prems by (intro Suc.IH) auto
  from Suc.prems(1) have "int a < maxAttempts c - 1" by simp
  moreover from e have "scripted outcomes n = (Inl (errs 0), Suc n)" by (simp add: scripted_def)
  ultimately show ?case using ih
    by (simp add: retry_loop.simps [of ar c _ rnd a] schedule_Suc)
qed


text \<open>
  C5. With \<open>maxAttempts \<ge> 1\<close>: an operation whose first \<open>k - 1\<close> invocations fail and
  whose \<open>k\<close>-th succeeds, \<open>k \<le> maxAttempts\<close>, makes \<open>retryWithBackoff\<close> return that
  value after exactly \<open>k\<close> invocations; an operation that fails \<open>maxAttempts\<close> times in a
  row makes it throw the error of the last invocation, as it is, after exactly
  \<open>maxAttempts\<close> invocations. In both cases each invocation but the last is followed by
  its backoff sleep and the last by none. The operation is \<open>scripted outcomes\<close>, whose
  world is the number of times it has been invoked.
\<close>

theorem retryWithBackoff_attempts:
  "1 \<le> maxAttempts (fullConfig pc) \<Longrightarrow>
   (1 \<le> k \<and> int k \<le> maxAttempts (fullConfig pc) \<and>
    (\<forall>i<k - 1. isl (outcomes i)) \<and> outcomes (k - 1) = Inr v \<longrightarrow>
      retryWithBackoff ar (scripted outcomes) pc rnd 0 =
        (Inr v, k, schedule ar (fullConfig pc) rnd 0 (k - 1))) \<and>
   ((\<forall>i<nat (maxAttempts (fullConfig pc)). outcomes i = Inl (errs i)) \<longrightarrow>
      retryWithBackoff ar (scripted outcomes) pc rnd 0 =
        (Inl (Some (errs (nat (maxAttempts (fullConfig pc)) - 1))),
         nat (maxAttempts (fullConfig pc)),
         schedule ar (fullConfig pc) rnd 0 (nat (maxAttempts (fullConfig pc)) - 1))) \<and>
   length (filter (\<lambda>e. e = Invoked) (schedule ar (fullConfig pc) rnd 0 j)) = Suc j \<and>
   length (filter (\<lambda>e. e \<noteq> Invoked) (schedule ar (fullConfig pc) rnd 0 j)) = j \<and>
   last (schedule ar (fullConfig pc) rnd 0 j) = Invoked"
proof (intro conjI impI)
  assume a: "1 \<le> k \<and> int k \<le> maxAttempts (fullConfig pc) \<and>
    (\<forall>i<k - 1. isl (outcomes i)) \<and> outcomes (k - 1) = Inr v"
  then obtain j where k: "k = Suc j" by (cases k) auto
  with a have "int 0 + int j < maxAttempts (fullConfig pc)"
    and "\<forall>i<j. isl (outcomes (0 + i))" and "outcomes (0 + j) = Inr v"
    by auto
  then have "retry_loop ar (fullConfig pc) (scripted outcomes) rnd 0 None 0 =
      (Inr v, Suc (0 + j), schedule ar (fullConfig pc) rnd 0 j)"
    by (rule retry_loop_succeeds)
  with k show "retryWithBackoff ar (scripted outcomes) pc rnd 0 =
        (Inr v, k, schedule ar (fullConfig pc) rnd 0 (k - 1))"
    by (simp add: retryWithBackoff_def)
next
  assume m: "1 \<le> maxAttempts (fullConfig pc)"
  assume a: "\<forall>i<nat (maxAttempts (fullConfig pc)). outcomes i = Inl (errs i)"
  from m obtain j where j: "nat (maxAttempts (fullConfig pc)) = Suc j"
    by (cases "nat (maxAttempts (fullConfig pc))") auto
  with m have "int 0 + int (Suc j) = maxAttempts (fullConfig pc)" by linarith
  moreover from a j have "\<forall>i\<le>j. outcomes (0 + i) = Inl (errs i)" by simp
  ultimately have "retry_loop ar (fullConfig pc) (scripted outcomes) rnd 0 None 0 =
      (Inl (Some (errs j)), Suc (0 + j), schedule ar (fullConfig pc) rnd 0 j)"
    by (rule retry_loop_exhausts)
  with j show "retryWithBackoff ar (scripted outcomes) pc rnd 0 =
        (Inl (Some (errs (nat (maxAttempts (fullConfig pc)) - 1))),
         nat (maxAttempts (fullConfig pc)),
         schedule ar (fullConfig pc) rnd 0 (nat (maxAttempts (fullConfig pc)) - 1))"
    by (simp add: retryWithBackoff_def)
qed (simp_all add: schedule_invocations schedule_sleeps schedule_last)

text \<open>
  The two unit tests: three attempts allowed, 10 ms of base delay, the random draw fixed
  at 1/2 (a jitter factor of 1); the operation fails twice and then succeeds, or fails
  every time.
\<close>

theorem retryWithBackoff_attempts_witness:
  "1 \<le> maxAttempts (fullConfig test_policy) \<and>
   retryWithBackoff unrounded
       (scripted (\<lambda>n. if n < 2 then Inl (Error ''temporary failure'') else Inr ''success''))
       test_policy (\<lambda>i. 1/2) 0 =
     (Inr ''success'', 3, [Invoked, Slept 10, Invoked, Slept 20, Invoked]) \<and>
   retryWithBackoff unrounded (scripted (\<lambda>n. Inl (Error ''permanent failure'') :: error + string))
       test_policy (\<lambda>i. 1/2) 0 =
     (Inl (Some (Error ''permanent failure'')), 3,
      [Invoked, Slept 10, Invoked, Slept 20, Invoked])"
proof -
  have m: "maxAttempts (fullConfig test_policy) = 3"
    by (simp add: fullConfig_def test_policy_def)
  have s: "schedule unrounded (fullConfig test_policy) (\<lambda>i. 1/2) 0 2 =
      [Invoked, Slept 10, Invoked, Slept 20, Invoked]"
    by (simp add: schedule_def fullConfig_def test_policy_def RETRY_DEFAULT_CONFIG_def
        calculateDelay_def unrounded_def eval_nat_numeral)
  note ok = retryWithBackoff_attempts [of test_policy 3
      "\<lambda>n. if n < 2 then Inl (Error ''temporary failure'') else Inr ''success''" "''success''"
      unrounded "\<lambda>i. 1/2" "\<lambda>i. Error ''temporary failure''" 0]
  note ko = retryWithBackoff_attempts [of test_policy 3
      "\<lambda>n. Inl (Error ''permanent failure'') :: error + string" "''success''"
      unrounded "\<lambda>i. 1/2" "\<lambda>i. Error ''permanent failure''" 0]
  from ok ko show ?thesis by (simp add: m s)
qed

section \<open>Properties of the circuit breaker\<close>



subsection \<open>Failing fast while open\<close>

lemma run_three_failures:
  "run [failing_at t, failing_at t, failing_at t] test_breaker =
     \<lparr>serviceName = ''test-service'',
      config = \<lparr>failureThreshold = 3, successThreshold = 2, timeout = 5000, resetTimeout = 100\<rparr>,
      state = OPEN, failureCount = 3, successCount = 0, lastFailureTime = Some t\<rparr>"
  by (simp add: run_def call_step_def execute_def isOpen_def withTimeout_def onFailure_def
      transitionTo_def test_breaker_def new_CircuitBreaker_def failing_at_def Let_def)

text \<open>
  C3. A breaker that is OPEN, whose last failure was recorded at the reading \<open>t\<close> of
  \<^verbatim>\<open>Date.now()\<close> and is called at a reading \<open>now\<close> with \<open>now - t < resetTimeout\<close>:
  \<open>execute\<close> throws \<open>CircuitBreakerOpenException\<close>; the operation is not invoked (the
  world it acts on comes back as it was, whatever the operation is); and the breaker comes
  back as it was, so \<open>failureCount\<close>, \<open>successCount\<close> and \<open>lastFailureTime\<close> are
  unchanged: the raise is not counted as a failure. The reading \<open>t\<close> is a time of the
  running system, which is after the epoch: \<open>t \<noteq> 0\<close>.
\<close>

theorem execute_fails_fast:
  assumes "state b = OPEN"
    and "lastFailureTime b = Some t"
    and "t \<noteq> 0"
    and "now - t < resetTimeout (config b)"
  shows "execute now t_settled operation b w =
      (Inl (CircuitBreakerOpenException (serviceName b)), b, w) \<and>
    failureCount (fst (snd (execute now t_settled operation b w))) = failureCount b \<and>
    successCount (fst (snd (execute now t_settled operation b w))) = successCount b \<and>
    lastFailureTime (fst (snd (execute now t_settled operation b w))) = lastFailureTime b \<and>
    state (fst (snd (execute now t_settled operation b w))) = OPEN"
  using assms by (simp add: execute_def isOpen_def shouldAttemptReset_def)

text \<open>
  The unit test "should throw CircuitBreakerOpenException when open": three failures at
  1 ms open the breaker, and a call at 50 ms does not run its operation, whose counter
  stays at 0.
\<close>

theorem execute_fails_fast_witness:
  "state (run [failing_at 1, failing_at 1, failing_at 1] test_breaker) = OPEN \<and>
   lastFailureTime (run [failing_at 1, failing_at 1, failing_at 1] test_breaker) = Some 1 \<and>
   (1::int) \<noteq> 0 \<and>
   (50::int) - 1 < resetTimeout (config (run [failing_at 1, failing_at 1, failing_at 1] test_breaker)) \<and>
   execute 50 50 counted (run [failing_at 1, failing_at 1, failing_at 1] test_breaker) 0 =
     (Inl (CircuitBreakerOpenException ''test-service''),
      run [failing_at 1, failing_at 1, failing_at 1] test_breaker, 0) \<and>
   failureCount (fst (snd (execute 50 50 counted
      (run [failing_at 1, failing_at 1, failing_at 1] test_breaker) 0))) = 3"
proof -
  let ?b = "run [failing_at 1, failing_at 1, failing_at 1] test_breaker"
  have 1: "state ?b = OPEN" by (simp add: run_three_failures)
  have 2: "lastFailureTime ?b = Some 1" by (simp add: run_three_failures)
  have 3: "(1::int) \<noteq> 0" by simp
  have 4: "(50::int) - 1 < resetTimeout (config ?b)" by (simp add: run_three_failures)
  have 5: "serviceName ?b = ''test-service''" "failureCount ?b = 3"
    by (simp_all add: run_three_failures)
  from execute_fails_fast [OF 1 2 3 4, of 50 counted 0] 1 2 3 4 5 show ?thesis
    by simp
qed

subsection \<open>The code against the state machine of the specification\<close>





section \<open>Properties of the queue consumer\<close>

lemma gate_found:
  "visible (lock_get env) (generateKey (product_id p) (eventId ev)) (idempotency c) = Some r \<Longrightarrow>
   IdempotencyService_checkAndLock env (product_id p) (eventId ev) (idempotency c) =
     (status r, idempotency c)"
  by (simp add: IdempotencyService_checkAndLock_def checkAndLock_present)

subsection \<open>A delivery of finished work\<close>

text \<open>
  C2. A well-formed message whose key has an unexpired COMPLETED record: the consumer
  counts one skip, asks the queue to delete the message, and does nothing else. No
  downstream call is made (the delete request is the only action added), the other
  counters and the idempotency store are as before, and the call returns normally when
  the delete succeeds (it throws the wrapped error of the delete otherwise).
\<close>

theorem completed_is_skipped:
  assumes "JSON_parse env (Body msg) = JsonValue body"
    and "detail body = Some ev"
    and "product ev = Some p"
    and "visible (lock_get env) (generateKey (product_id p) (eventId ev)) (idempotency c) = Some r"
    and "status r = COMPLETED"
  shows "processMessageWithRetry env msg c =
    ((case deleteMessage env (ReceiptHandle msg) of
        None \<Rightarrow> Inr ()
      | Some e \<Rightarrow> Inl (wrapped msg e)),
     c\<lparr>metrics := (metrics c)\<lparr>skipped := Suc (skipped (metrics c))\<rparr>,
       actions := actions c @ [DeleteMessage (ReceiptHandle msg)]\<rparr>)"
  using assms
  by (simp add: processMessageWithRetry_def admit_def gate_def gate_found isProcessed_def
      sqs_deleteMessage_def Let_def split: option.splits)

lemma holding_visible:
  "visible 5000 (generateKey (Some ''p1'') (Some ''e1'')) (idempotency (holding st)) =
     Some \<lparr>key = generateKey (Some ''p1'') (Some ''e1''), status = st, createdAt = 1000, updatedAt = 1000,
           result = None, error = None\<rparr>"
  by (simp add: holding_def visible_store_set)

theorem completed_is_skipped_witness:
  "processMessageWithRetry (world (JsonValue \<lparr>detail = Some ingested\<rparr>) (Inr ''pim-1'') None)
      delivery (holding COMPLETED) =
     (Inr (),
      \<lparr>metrics = \<lparr>processed = 0, skipped = 1, failed = 0, totalDurationMs = 0\<rparr>,
       idempotency = idempotency (holding COMPLETED),
       actions = [DeleteMessage ''rh1'']\<rparr>)"
proof -
  let ?env = "world (JsonValue \<lparr>detail = Some ingested\<rparr>) (Inr ''pim-1'') None"
  let ?r = "\<lparr>key = generateKey (Some ''p1'') (Some ''e1''), status = COMPLETED, createdAt = 1000,
            updatedAt = 1000, result = None, error = None\<rparr>"
  have 1: "JSON_parse ?env (Body delivery) = JsonValue \<lparr>detail = Some ingested\<rparr>"
    by (simp add: world_def)
  have 2: "detail \<lparr>detail = Some ingested\<rparr> = Some ingested" by simp
  have 3: "product ingested = Some shirt" by (simp add: ingested_def)
  have 4: "visible (lock_get ?env) (generateKey (product_id shirt) (eventId ingested))
      (idempotency (holding COMPLETED)) = Some ?r"
    using holding_visible [of COMPLETED] by (simp add: world_def shirt_def ingested_def)
  have 5: "status ?r = COMPLETED" by simp
  from completed_is_skipped [OF 1 2 3 4 5] show ?thesis
    by (simp add: world_def delivery_def holding_def idle_def)
qed

subsection \<open>Processing and its outcome\<close>

lemma stored_status_markFailed:
  "map_option (status \<circ> the_record)
     (IdempotencyService_markFailed env a b m s (generateKey a b)) = Some FAILED"
  by (simp add: IdempotencyService_markFailed_def markFailed_def store_set_def)

lemma stored_status_markCompleted:
  "map_option (status \<circ> the_record)
     (IdempotencyService_markCompleted env a b res s (generateKey a b)) = Some COMPLETED"
  by (simp add: IdempotencyService_markCompleted_def markCompleted_def store_set_def)

lemma admit_proceeds:
  assumes "JSON_parse env (Body msg) = JsonValue body"
    and "detail body = Some ev"
    and "product ev = Some p"
    and "IdempotencyService_checkAndLock env (product_id p) (eventId ev) (idempotency c) = (st, s1)"
    and "st = NOT_FOUND \<or> st = FAILED"
  shows "admit env msg c =
    (Proceed p ev (case correlationId ev of
                     None \<Rightarrow> eventId ev
                   | Some x \<Rightarrow> if x = [] then eventId ev else Some x),
     c\<lparr>idempotency := s1\<rparr>)"
  using assms by (auto simp: admit_def gate_def isProcessed_def isProcessing_def Let_def)

text \<open>
  The three ways the inner \<^verbatim>\<open>try\<close> of an admitted message ends; \<open>s1\<close> is the store
  after \<open>checkAndLock\<close>.
\<close>

lemma settle_cases:
  assumes "JSON_parse env (Body msg) = JsonValue body"
    and "detail body = Some ev"
    and "product ev = Some p"
    and "IdempotencyService_checkAndLock env (product_id p) (eventId ev) (idempotency c) = (st, s1)"
    and "st = NOT_FOUND \<or> st = FAILED"
  shows
   "(upsertProduct env p = Inl e \<longrightarrow>
       processMessageWithRetry env msg c =
         (Inl (wrapped msg e),
          c\<lparr>idempotency :=
               IdempotencyService_markFailed env (product_id p) (eventId ev) (message e) s1,
            metrics := (metrics c)\<lparr>failed := Suc (failed (metrics c))\<rparr>,
            actions := actions c @ [UpsertProduct p]\<rparr>)) \<and>
    (upsertProduct env p = Inr pim \<and> deleteMessage env (ReceiptHandle msg) = None \<longrightarrow>
       processMessageWithRetry env msg c =
         (Inr (),
          c\<lparr>idempotency :=
               IdempotencyService_markCompleted env (product_id p) (eventId ev)
                 (Some (''processedAt:'' @ show_int (processedAt env))) s1,
            metrics := (metrics c)\<lparr>processed := Suc (processed (metrics c))\<rparr>,
            actions := actions c @
              [UpsertProduct p,
               Emit ''product.synced.pimcore'' p pim (batchId ev)
                 (case correlationId ev of
                    None \<Rightarrow> eventId ev
                  | Some x \<Rightarrow> if x = [] then eventId ev else Some x),
               DeleteMessage (ReceiptHandle msg)]\<rparr>)) \<and>
    (upsertProduct env p = Inr pim \<and> deleteMessage env (ReceiptHandle msg) = Some e \<longrightarrow>
       processMessageWithRetry env msg c =
         (Inl (wrapped msg e),
          c\<lparr>idempotency :=
               IdempotencyService_markFailed env (product_id p) (eventId ev) (message e)
                 (IdempotencyService_markCompleted env (product_id p) (eventId ev)
                    (Some (''processedAt:'' @ show_int (processedAt env))) s1),
            metrics := (metrics c)\<lparr>failed := Suc (failed (metrics c))\<rparr>,
            actions := actions c @
              [UpsertProduct p,
               Emit ''product.synced.pimcore'' p pim (batchId ev)
                 (case correlationId ev of
                    None \<Rightarrow> eventId ev
                  | Some x \<Rightarrow> if x = [] then eventId ev else Some x),
               DeleteMessage (ReceiptHandle msg)]\<rparr>))"
proof -
  note adm = admit_proceeds [OF assms]
  show ?thesis
    by (simp add: processMessageWithRetry_def adm settle_def processProduct_def
        record_failure_def sqs_deleteMessage_def Let_def)
qed

text \<open>
  C9, as the code has it. A well-formed message for which \<open>checkAndLock\<close> answers
  NOT_FOUND or FAILED is processed. If the downstream call fails with \<open>e\<close>, the key is
  marked FAILED with the message of \<open>e\<close>, the failed counter goes up by one, no delete is
  requested (the downstream call is the only action) and the call throws an
  \<open>SqsException\<close> that wraps \<open>e\<close>. If the downstream call succeeds, the key is marked
  COMPLETED and the delete is requested; when the delete succeeds the processed counter
  goes up by one and the call returns; when the delete itself fails with \<open>e\<close>, the key is
  overwritten with FAILED, the failed counter goes up by one instead, and the call throws
  an \<open>SqsException\<close> that wraps \<open>e\<close>. \<open>s1\<close> is the store after \<open>checkAndLock\<close>.
\<close>

theorem processing_outcomes:
  assumes "JSON_parse env (Body msg) = JsonValue body"
    and "detail body = Some ev"
    and "product ev = Some p"
    and "IdempotencyService_checkAndLock env (product_id p) (eventId ev) (idempotency c) = (st, s1)"
    and "st = NOT_FOUND \<or> st = FAILED"
  shows
   "(upsertProduct env p = Inl e \<longrightarrow>
       processMessageWithRetry env msg c =
         (Inl (wrapped msg e),
          c\<lparr>idempotency :=
               IdempotencyService_markFailed env (product_id p) (eventId ev) (message e) s1,
            metrics := (metrics c)\<lparr>failed := Suc (failed (metrics c))\<rparr>,
            actions := actions c @ [UpsertProduct p]\<rparr>)) \<and>
    (upsertProduct env p = Inr pim \<and> deleteMessage env (ReceiptHandle msg) = None \<longrightarrow>
       processMessageWithRetry env msg c =
         (Inr (),
          c\<lparr>idempotency :=
               IdempotencyService_markCompleted env (product_id p) (eventId ev)
                 (Some (''processedAt:'' @ show_int (processedAt env))) s1,
            metrics := (metrics c)\<lparr>processed := Suc (processed (metrics c))\<rparr>,
            actions := actions c @
              [UpsertProduct p,
               Emit ''product.synced.pimcore'' p pim (batchId ev)
                 (case correlationId ev of
                    None \<Rightarrow> eventId ev
                  | Some x \<Rightarrow> if x = [] then eventId ev else Some x),
               DeleteMessage (ReceiptHandle msg)]\<rparr>)) \<and>
    (upsertProduct env p = Inr pim \<and> deleteMessage env (ReceiptHandle msg) = Some e \<longrightarrow>
       processMessageWithRetry env msg c =
         (Inl (wrapped msg e),
          c\<lparr>idempotency :=
               IdempotencyService_markFailed env (product_id p) (eventId ev) (message e)
                 (IdempotencyService_markCompleted env (product_id p) (eventId ev)
                    (Some (''processedAt:'' @ show_int (processedAt env))) s1),
            metrics := (metrics c)\<lparr>failed := Suc (failed (metrics c))\<rparr>,
            actions := actions c @
              [UpsertProduct p,
               Emit ''product.synced.pimcore'' p pim (batchId ev)
                 (case correlationId ev of
                    None \<Rightarrow> eventId ev
                  | Some x \<Rightarrow> if x = [] then eventId ev else Some x),
               DeleteMessage (ReceiptHandle msg)]\<rparr>)) \<and>
    map_option (status \<circ> the_record)
      (IdempotencyService_markFailed env (product_id p) (eventId ev) m' s'
         (generateKey (product_id p) (eventId ev))) = Some FAILED \<and>
    map_option (status \<circ> the_record)
      (IdempotencyService_markCompleted env (product_id p) (eventId ev) res' s'
         (generateKey (product_id p) (eventId ev))) = Some COMPLETED"
  using settle_cases [OF assms, of e pim] settle_cases [OF assms, of e]
  by (simp add: stored_status_markFailed stored_status_markCompleted)

lemma idle_lock:
  "IdempotencyService_checkAndLock (world parsed up del) (product_id shirt) (eventId ingested)
     (idempotency idle) =
   (NOT_FOUND,
    snd (IdempotencyService_checkAndLock (world parsed up del) (product_id shirt)
          (eventId ingested) (idempotency idle)))"
  by (simp add: IdempotencyService_checkAndLock_def checkAndLock_def store_get_def idle_def)

text \<open>
  A first delivery to an idle consumer: once with the downstream failing, once with
  everything succeeding.
\<close>

theorem processing_outcomes_witness:
  "fst (processMessageWithRetry
          (world (JsonValue \<lparr>detail = Some ingested\<rparr>) (Inl (Error ''HTTP 503'')) None)
          delivery idle) = Inl (wrapped delivery (Error ''HTTP 503'')) \<and>
   metrics (snd (processMessageWithRetry
          (world (JsonValue \<lparr>detail = Some ingested\<rparr>) (Inl (Error ''HTTP 503'')) None)
          delivery idle)) = \<lparr>processed = 0, skipped = 0, failed = 1, totalDurationMs = 0\<rparr> \<and>
   actions (snd (processMessageWithRetry
          (world (JsonValue \<lparr>detail = Some ingested\<rparr>) (Inl (Error ''HTTP 503'')) None)
          delivery idle)) = [UpsertProduct shirt] \<and>
   fst (processMessageWithRetry
          (world (JsonValue \<lparr>detail = Some ingested\<rparr>) (Inr ''pim-1'') None)
          delivery idle) = Inr () \<and>
   metrics (snd (processMessageWithRetry
          (world (JsonValue \<lparr>detail = Some ingested\<rparr>) (Inr ''pim-1'') None)
          delivery idle)) = \<lparr>processed = 1, skipped = 0, failed = 0, totalDurationMs = 0\<rparr> \<and>
   actions (snd (processMessageWithRetry
          (world (JsonValue \<lparr>detail = Some ingested\<rparr>) (Inr ''pim-1'') None)
          delivery idle)) =
     [UpsertProduct shirt, Emit ''product.synced.pimcore'' shirt ''pim-1'' ''b1'' (Some ''e1''),
      DeleteMessage ''rh1'']"
proof -
  let ?ko = "world (JsonValue \<lparr>detail = Some ingested\<rparr>) (Inl (Error ''HTTP 503'')) None"
  let ?ok = "world (JsonValue \<lparr>detail = Some ingested\<rparr>) (Inr ''pim-1'') None"
  have 2: "detail \<lparr>detail = Some ingested\<rparr> = Some ingested" by simp
  have 3: "product ingested = Some shirt" by (simp add: ingested_def)
  have 5: "NOT_FOUND = NOT_FOUND \<or> NOT_FOUND = FAILED" by simp
  have k1: "JSON_parse ?ko (Body delivery) = JsonValue \<lparr>detail = Some ingested\<rparr>"
    by (simp add: world_def)
  have o1: "JSON_parse ?ok (Body delivery) = JsonValue \<lparr>detail = Some ingested\<rparr>"
    by (simp add: world_def)
  note ko = processing_outcomes [OF k1 2 3 idle_lock 5, of "Error ''HTTP 503''" "''pim-1''"]
  note ok = processing_outcomes [OF o1 2 3 idle_lock 5, of "Error ''HTTP 503''" "''pim-1''"]
  have "upsertProduct ?ko shirt = Inl (Error ''HTTP 503'')" by (simp add: world_def)
  with ko have a: "processMessageWithRetry ?ko delivery idle =
      (Inl (wrapped delivery (Error ''HTTP 503'')),
       idle\<lparr>idempotency :=
              IdempotencyService_markFailed ?ko (product_id shirt) (eventId ingested)
                (message (Error ''HTTP 503''))
                (snd (IdempotencyService_checkAndLock ?ko (product_id shirt) (eventId ingested)
                       (idempotency idle))),
            metrics := (metrics idle)\<lparr>failed := Suc (failed (metrics idle))\<rparr>,
            actions := actions idle @ [UpsertProduct shirt]\<rparr>)"
    by blast
  have "upsertProduct ?ok shirt = Inr ''pim-1'' \<and> deleteMessage ?ok (ReceiptHandle delivery) = None"
    by (simp add: world_def)
  with ok have b: "processMessageWithRetry ?ok delivery idle =
      (Inr (),
       idle\<lparr>idempotency :=
              IdempotencyService_markCompleted ?ok (product_id shirt) (eventId ingested)
                (Some (''processedAt:'' @ show_int (processedAt ?ok)))
                (snd (IdempotencyService_checkAndLock ?ok (product_id shirt) (eventId ingested)
                       (idempotency idle))),
            metrics := (metrics idle)\<lparr>processed := Suc (processed (metrics idle))\<rparr>,
            actions := actions idle @
              [UpsertProduct shirt,
               Emit ''product.synced.pimcore'' shirt ''pim-1'' (batchId ingested)
                 (case correlationId ingested of
                    None \<Rightarrow> eventId ingested
                  | Some x \<Rightarrow> if x = [] then eventId ingested else Some x),
               DeleteMessage (ReceiptHandle delivery)]\<rparr>)"
    by blast
  show ?thesis
    unfolding a b by (simp add: idle_def ingested_def delivery_def)
qed

text \<open>
  The claim fails when the downstream call succeeds and the delete of the message does
  not: the processed counter stays at 0, the failed counter goes to 1 and the key, marked
  COMPLETED a moment before, ends FAILED.
\<close>

theorem failed_delete_is_a_failure:
  "upsertProduct (world (JsonValue \<lparr>detail = Some ingested\<rparr>) (Inr ''pim-1'')
       (Some (Error ''network down''))) shirt = Inr ''pim-1'' \<and>
   metrics (snd (processMessageWithRetry
       (world (JsonValue \<lparr>detail = Some ingested\<rparr>) (Inr ''pim-1'') (Some (Error ''network down'')))
       delivery idle)) = \<lparr>processed = 0, skipped = 0, failed = 1, totalDurationMs = 0\<rparr> \<and>
   map_option (status \<circ> the_record)
     (idempotency (snd (processMessageWithRetry
       (world (JsonValue \<lparr>detail = Some ingested\<rparr>) (Inr ''pim-1'') (Some (Error ''network down'')))
       delivery idle)) (generateKey (Some ''p1'') (Some ''e1''))) = Some FAILED"
  by (simp add: processMessageWithRetry_def admit_def gate_def settle_def processProduct_def
      record_failure_def sqs_deleteMessage_def isProcessed_def isProcessing_def
      IdempotencyService_checkAndLock_def IdempotencyService_markCompleted_def
      IdempotencyService_markFailed_def checkAndLock_def markCompleted_def markFailed_def
      store_get_def store_set_def world_def ingested_def shirt_def delivery_def idle_def Let_def)

subsection \<open>A delivery of failed work\<close>



subsection \<open>Malformed messages\<close>






end
